theory Spec2Isabelle
  imports Main
begin

section \<open>Gemini File Search client: strings\<close>

text \<open>
  Strings are \<^typ>\<open>string\<close>, read as the UTF-8 bytes of the JavaScript string. The
  whitespace that \<^verbatim>\<open>String.prototype.trim\<close> strips is modelled on the ASCII range
  (TAB, LF, VT, FF, CR, SPACE); the non-ASCII white space of ECMAScript is outside the
  model.
\<close>

definition isWhiteSpace :: "char \<Rightarrow> bool" where
  "isWhiteSpace c =
     (c = CHR 0x09 \<or> c = CHR 0x0A \<or> c = CHR 0x0B \<or> c = CHR 0x0C \<or> c = CHR 0x0D \<or> c = CHR '' '')"

text \<open>\<^verbatim>\<open>s.trim()\<close>: white space removed from both ends.\<close>

definition trim :: "string \<Rightarrow> string" where
  "trim s = rev (dropWhile isWhiteSpace (rev (dropWhile isWhiteSpace s)))"

text \<open>\<^verbatim>\<open>s.startsWith(p)\<close>.\<close>

definition startsWith :: "string \<Rightarrow> string \<Rightarrow> bool" where
  "startsWith s p = (take (length p) s = p)"

text \<open>\<^verbatim>\<open>s.includes(sub)\<close>: \<open>sub\<close> occurs in \<open>s\<close> at some index.\<close>

definition includesStr :: "string \<Rightarrow> string \<Rightarrow> bool" where
  "includesStr s sub = list_ex (\<lambda>i. take (length sub) (drop i s) = sub) [0..<Suc (length s)]"

text \<open>
  \<^verbatim>\<open>function normalizeStoreName(name) {
    const trimmed = name.trim();
    if (trimmed.startsWith("fileSearchStores/")) return trimmed;
    return `fileSearchStores/${trimmed}`; }\<close>
\<close>

definition STORE_PREFIX :: string where
  "STORE_PREFIX = ''fileSearchStores/''"

definition normalizeStoreName :: "string \<Rightarrow> string" where
  "normalizeStoreName name =
     (let trimmed = trim name in
      if startsWith trimmed STORE_PREFIX then trimmed else STORE_PREFIX @ trimmed)"

section \<open>Shared types and constants (types.ts)\<close>

text \<open>
  The plugin configuration. Its two numbers are integers here, as the configuration
  declares them; fractional values and \<open>NaN\<close> are outside the model.
\<close>

record PluginCfg =
  defaultModel :: "string option"
  maxStoresPerQuery :: "int option"
  timeoutMs :: "int option"

text \<open>The empty object \<^verbatim>\<open>{}\<close> used where no plugin configuration is given.\<close>

definition emptyPluginCfg :: PluginCfg where
  "emptyPluginCfg = \<lparr>defaultModel = None, maxStoresPerQuery = None, timeoutMs = None\<rparr>"

definition DEFAULT_MODEL :: string where
  "DEFAULT_MODEL = ''gemini-2.5-flash''"

definition DEFAULT_TIMEOUT_MS :: int where
  "DEFAULT_TIMEOUT_MS = 30000"

definition MAX_STORES_HARD_LIMIT :: int where
  "MAX_STORES_HARD_LIMIT = 5"

definition DEFAULT_BASE_URL :: string where
  "DEFAULT_BASE_URL = ''https://generativelanguage.googleapis.com/v1beta''"

record FileSearchStore =
  name :: string
  displayName :: "string option"
  description :: "string option"

record ListStoresResponse =
  fileSearchStores :: "FileSearchStore list option"

text \<open>The fields \<^verbatim>\<open>uri\<close> and \<^verbatim>\<open>title\<close> of \<^verbatim>\<open>retrievedContext\<close>.\<close>

record RetrievedContext =
  ctx_uri :: "string option"
  ctx_title :: "string option"

record GroundingChunk =
  retrievedContext :: "RetrievedContext option"

record GroundingMetadata =
  groundingChunks :: "GroundingChunk list option"

record ContentPart =
  part_text :: "string option"

record Content =
  parts :: "ContentPart list option"

record ContentCandidate =
  content :: "Content option"
  groundingMetadata :: "GroundingMetadata option"

record GenerateContentResponse =
  candidates :: "ContentCandidate list option"

section \<open>Host configuration, errors and the HTTP interface\<close>

text \<open>
  Of the host configuration the client reads \<^verbatim>\<open>config?.models?.providers?.google\<close>
  only: its \<^verbatim>\<open>baseUrl\<close> and its \<^verbatim>\<open>headers\<close>. A missing link of the optional
  chain is \<open>None\<close>. The headers object is a map from header name to value.
\<close>

record GoogleProvider =
  baseUrl :: "string option"
  headers :: "(string \<rightharpoonup> string) option"

record OpenClawConfig =
  google :: "GoogleProvider option"

text \<open>
  Every failure of the client is a thrown value: \<open>Error msg\<close> is \<^verbatim>\<open>new Error(msg)\<close>
  thrown by the client itself, \<open>External msg\<close> a failure raised by a collaborator (the
  credential resolver, \<^verbatim>\<open>fetch\<close>, \<^verbatim>\<open>res.json()\<close>) and passed on unchanged.
\<close>

datatype error = Error string | External string

record ResolvedProviderAuth =
  apiKey :: "string option"
  profileId :: "string option"
  source :: string
  mode :: string

text \<open>
  The module \<^verbatim>\<open>agents/model-auth.js\<close> of the host, with the two functions the client
  takes from it. Both may fail.
\<close>

record ModelAuth =
  resolveApiKeyForProvider ::
    "string \<Rightarrow> OpenClawConfig option \<Rightarrow> string option \<Rightarrow> error + ResolvedProviderAuth"
  requireApiKey :: "ResolvedProviderAuth \<Rightarrow> string \<Rightarrow> error + string"

text \<open>
  The object passed to \<^verbatim>\<open>JSON.stringify\<close> as the body of the query:
  \<^verbatim>\<open>{ contents: [{ parts: [{ text }] }], tools: [{ fileSearch: { fileSearchStoreNames } }] }\<close>.
\<close>

record RequestBody =
  contents_text :: string
  fileSearchStoreNames :: "string list"

text \<open>
  A call of \<^verbatim>\<open>fetch\<close>: method, URL, headers, body, and the delay after which the
  abort signal fires.
\<close>

record HttpRequest =
  req_method :: string
  req_url :: string
  req_headers :: "string \<rightharpoonup> string"
  req_body :: "RequestBody option"
  req_timeoutMs :: int

text \<open>
  A response: its status, what \<^verbatim>\<open>res.text()\<close> gives and what \<^verbatim>\<open>res.json()\<close>
  gives (\<open>None\<close> when the body does not parse).
\<close>

record 'd HttpResponse =
  status :: nat
  bodyText :: string
  bodyJson :: "'d option"

text \<open>\<^verbatim>\<open>res.ok\<close>: the status is in the range 200 to 299.\<close>

definition ok :: "'d HttpResponse \<Rightarrow> bool" where
  "ok res = (200 \<le> status res \<and> status res \<le> 299)"

text \<open>\<^verbatim>\<open>fetch\<close> either rejects (network failure, abort at the deadline) or resolves.\<close>

datatype 'd FetchOutcome = Rejected error | Resolved "'d HttpResponse"

record Source =
  title :: string
  uri :: string

record QueryResult =
  answer :: string
  sources :: "Source list"

record CallParams =
  config :: "OpenClawConfig option"
  agentDir :: "string option"
  pluginCfg :: "PluginCfg option"

record QueryParams = CallParams +
  query :: string
  stores :: "string list"
  model :: "string option"

section \<open>JavaScript primitives used by the client\<close>

text \<open>\<^verbatim>\<open>a || b\<close> on an optional string: \<open>undefined\<close> and the empty string are falsy.\<close>

definition truthy :: "string option \<Rightarrow> bool" where
  "truthy v = (case v of None \<Rightarrow> False | Some s \<Rightarrow> s \<noteq> [])"

definition orElse :: "string option \<Rightarrow> string \<Rightarrow> string" where
  "orElse v d = (case v of None \<Rightarrow> d | Some s \<Rightarrow> if s = [] then d else s)"

text \<open>\<^verbatim>\<open>a ?? b\<close>: only \<open>undefined\<close> and \<open>null\<close> give way.\<close>

definition nullish :: "'a option \<Rightarrow> 'a \<Rightarrow> 'a" where
  "nullish v d = (case v of None \<Rightarrow> d | Some x \<Rightarrow> x)"

text \<open>
  \<^verbatim>\<open>xs.slice(0, end)\<close>: a negative \<open>end\<close> counts from the end of the array.
\<close>

definition slice0 :: "'a list \<Rightarrow> int \<Rightarrow> 'a list" where
  "slice0 xs e =
     (let len = int (length xs);
          final = (if e < 0 then max (len + e) 0 else min e len)
      in take (nat final) xs)"

text \<open>\<^verbatim>\<open>s.indexOf(sub)\<close>, \<open>-1\<close> when \<open>sub\<close> does not occur.\<close>

definition indexOf :: "string \<Rightarrow> string \<Rightarrow> int" where
  "indexOf s sub =
     (case find (\<lambda>i. take (length sub) (drop i s) = sub) [0..<Suc (length s)] of
        None \<Rightarrow> - 1
      | Some i \<Rightarrow> int i)"

text \<open>The decimal digits of a number, as a template literal prints an integer.\<close>

fun decimal :: "nat \<Rightarrow> string" where
  "decimal n =
     (if n < 10 then [''0123456789'' ! n]
      else decimal (n div 10) @ [''0123456789'' ! (n mod 10)])"

declare decimal.simps [simp del]

text \<open>
  \<^verbatim>\<open>encodeURIComponent\<close> on the UTF-8 bytes: letters, digits and \<^verbatim>\<open>- _ . ! ~ * ' ( )\<close>
  stay, every other byte becomes \<^verbatim>\<open>%XX\<close>.
\<close>

definition uriUnreserved :: "char \<Rightarrow> bool" where
  "uriUnreserved c =
     (c \<in> set ''ABCDEFGHIJKLMNOPQRSTUVWXYZabcdefghijklmnopqrstuvwxyz0123456789-_.!~*()''
      \<or> c = CHR 0x27)"

definition hexDigit :: "nat \<Rightarrow> char" where
  "hexDigit n = ''0123456789ABCDEF'' ! n"

definition encodeURIComponent :: "string \<Rightarrow> string" where
  "encodeURIComponent s =
     concat (map (\<lambda>c. if uriUnreserved c then [c]
                       else [CHR ''%'', hexDigit (of_char c div 16), hexDigit (of_char c mod 16)]) s)"

text \<open>\<^verbatim>\<open>xs.join(sep)\<close>.\<close>

fun join :: "string \<Rightarrow> string list \<Rightarrow> string" where
  "join sep [] = []"
| "join sep [x] = x"
| "join sep (x # y # ys) = x @ sep @ join sep (y # ys)"

section \<open>The client (gemini-client.ts)\<close>

text \<open>
  \<^verbatim>\<open>loadModelAuth\<close> probes the candidate locations of the module; \<open>found\<close> is the
  module it finds, \<open>None\<close> when no location exports both functions.
\<close>

definition loadModelAuth :: "ModelAuth option \<Rightarrow> error + ModelAuth" where
  "loadModelAuth found =
     (case found of
        Some m \<Rightarrow> Inr m
      | None \<Rightarrow> Inl (Error ''Internal error: model-auth not available''))"

text \<open>
  \<^verbatim>\<open>const raw = config?.models?.providers?.google?.baseUrl?.trim();
  if (!raw) return DEFAULT_BASE_URL;
  let url = raw.replace(/\/+$/, "");
  const openAiIndex = url.indexOf("/openai");
  if (openAiIndex > -1) url = url.slice(0, openAiIndex);
  return url;\<close>
\<close>

definition resolveBaseUrl :: "OpenClawConfig option \<Rightarrow> string" where
  "resolveBaseUrl cfg =
     (case map_option trim (Option.bind (Option.bind cfg google) baseUrl) of
        None \<Rightarrow> DEFAULT_BASE_URL
      | Some raw \<Rightarrow>
          if raw = [] then DEFAULT_BASE_URL
          else
            let url = rev (dropWhile (\<lambda>c. c = CHR ''/'') (rev raw));
                openAiIndex = indexOf url ''/openai''
            in if openAiIndex > - 1 then take (nat openAiIndex) url else url)"

text \<open>
  \<^verbatim>\<open>const { resolveApiKeyForProvider, requireApiKey } = await loadModelAuth();
  const auth = await resolveApiKeyForProvider({ provider: "google", cfg: config, agentDir });
  return requireApiKey(auth, "google");\<close>
\<close>

definition resolveApiKey ::
  "ModelAuth option \<Rightarrow> OpenClawConfig option \<Rightarrow> string option \<Rightarrow> error + string" where
  "resolveApiKey found cfg dir =
     (case loadModelAuth found of
        Inl e \<Rightarrow> Inl e
      | Inr m \<Rightarrow>
          (case resolveApiKeyForProvider m ''google'' cfg dir of
             Inl e \<Rightarrow> Inl e
           | Inr auth \<Rightarrow> requireApiKey m auth ''google''))"

text \<open>
  \<^verbatim>\<open>const providerHeaders = config?.models?.providers?.google?.headers;
  return { "Content-Type": "application/json", "x-goog-api-key": apiKey, ...providerHeaders };\<close>
  In an object literal a later property replaces an earlier one of the same name, and
  spreading \<open>undefined\<close> adds nothing.
\<close>

definition buildHeaders :: "string \<Rightarrow> OpenClawConfig option \<Rightarrow> (string \<rightharpoonup> string)" where
  "buildHeaders key cfg =
     (let providerHeaders = Option.bind (Option.bind cfg google) headers in
      [''Content-Type'' \<mapsto> ''application/json'', ''x-goog-api-key'' \<mapsto> key]
        ++ nullish providerHeaders Map.empty)"

text \<open>The request of \<^verbatim>\<open>listFileSearchStores\<close>.\<close>

definition listRequest :: "string \<Rightarrow> CallParams \<Rightarrow> HttpRequest" where
  "listRequest key params =
     (let baseUrl = resolveBaseUrl (config params);
          headers = buildHeaders key (config params);
          timeoutMs = nullish (Option.bind (pluginCfg params) timeoutMs) DEFAULT_TIMEOUT_MS;
          url = baseUrl @ ''/fileSearchStores?key='' @ encodeURIComponent key
      in \<lparr>req_method = ''GET'', req_url = url, req_headers = headers, req_body = None,
          req_timeoutMs = timeoutMs\<rparr>)"

text \<open>
  \<^verbatim>\<open>listFileSearchStores\<close>. The result comes with the requests that were issued.
\<close>

definition listFileSearchStores ::
  "ModelAuth option \<Rightarrow> (HttpRequest \<Rightarrow> ListStoresResponse FetchOutcome) \<Rightarrow> CallParams
     \<Rightarrow> (error + FileSearchStore list) \<times> HttpRequest list" where
  "listFileSearchStores found fetch params =
     (case resolveApiKey found (config params) (agentDir params) of
        Inl e \<Rightarrow> (Inl e, [])
      | Inr key \<Rightarrow>
          let req = listRequest key params in
          (case fetch req of
             Rejected e \<Rightarrow> (Inl e, [req])
           | Resolved res \<Rightarrow>
               if \<not> ok res then
                 (Inl (Error (''Gemini listFileSearchStores failed: '' @ decimal (status res)
                    @ '' '' @ bodyText res)), [req])
               else
                 (case bodyJson res of
                    None \<Rightarrow> (Inl (External ''res.json() rejected''), [req])
                  | Some data \<Rightarrow> (Inr (nullish (fileSearchStores data) []), [req]))))"

text \<open>
  The values \<^verbatim>\<open>queryFileSearch\<close> derives from the plugin configuration and the call:
  \<^verbatim>\<open>const timeoutMs = pluginCfg.timeoutMs ?? DEFAULT_TIMEOUT_MS;
  const model = params.model?.trim() || pluginCfg.defaultModel?.trim() || DEFAULT_MODEL;
  const maxStores = Math.min(pluginCfg.maxStoresPerQuery ?? MAX_STORES_HARD_LIMIT,
                             MAX_STORES_HARD_LIMIT);\<close>
\<close>

definition effectiveModel :: "string option \<Rightarrow> PluginCfg \<Rightarrow> string" where
  "effectiveModel m pcfg =
     orElse (map_option trim m) (orElse (map_option trim (defaultModel pcfg)) DEFAULT_MODEL)"

definition effectiveMaxStores :: "PluginCfg \<Rightarrow> int" where
  "effectiveMaxStores pcfg =
     min (nullish (maxStoresPerQuery pcfg) MAX_STORES_HARD_LIMIT) MAX_STORES_HARD_LIMIT"

text \<open>
  \<^verbatim>\<open>const storeNames = params.stores.slice(0, maxStores).map(normalizeStoreName);\<close>
\<close>

definition storeNamesOf :: "QueryParams \<Rightarrow> string list" where
  "storeNamesOf params =
     (let pcfg = nullish (pluginCfg params) emptyPluginCfg in
      map normalizeStoreName (slice0 (stores params) (effectiveMaxStores pcfg)))"

text \<open>The request of \<^verbatim>\<open>queryFileSearch\<close>.\<close>

definition queryRequest :: "string \<Rightarrow> QueryParams \<Rightarrow> HttpRequest" where
  "queryRequest key params =
     (let baseUrl = resolveBaseUrl (config params);
          headers = buildHeaders key (config params);
          pcfg = nullish (pluginCfg params) emptyPluginCfg;
          timeoutMs = nullish (timeoutMs pcfg) DEFAULT_TIMEOUT_MS;
          model = effectiveModel (model params) pcfg;
          url = baseUrl @ ''/models/'' @ encodeURIComponent model @ '':generateContent?key=''
                  @ encodeURIComponent key;
          body = \<lparr>contents_text = query params, fileSearchStoreNames = storeNamesOf params\<rparr>
      in \<lparr>req_method = ''POST'', req_url = url, req_headers = headers, req_body = Some body,
          req_timeoutMs = timeoutMs\<rparr>)"

text \<open>
  \<^verbatim>\<open>const candidate = data.candidates?.[0];
  const answer = candidate?.content?.parts?.map((p) => p.text ?? "").join("").trim() ?? "";\<close>
\<close>

definition firstCandidate :: "GenerateContentResponse \<Rightarrow> ContentCandidate option" where
  "firstCandidate data =
     (case candidates data of None \<Rightarrow> None | Some [] \<Rightarrow> None | Some (c # cs) \<Rightarrow> Some c)"

definition extractAnswer :: "ContentCandidate option \<Rightarrow> string" where
  "extractAnswer candidate =
     nullish
       (map_option (\<lambda>ps. trim (concat (map (\<lambda>p. nullish (part_text p) []) ps)))
          (Option.bind (Option.bind candidate content) parts))
       []"

text \<open>
  \<^verbatim>\<open>for (const chunk of chunks) {
    const ctx = chunk.retrievedContext;
    if (ctx?.uri || ctx?.title)
      sources.push({ title: ctx.title ?? ctx.uri ?? "", uri: ctx.uri ?? "" });
  }\<close>
  The loop, with the array \<open>acc\<close> it pushes to.
\<close>

fun collectSources :: "GroundingChunk list \<Rightarrow> Source list \<Rightarrow> Source list" where
  "collectSources [] acc = acc"
| "collectSources (chunk # chunks) acc =
     (let ctx = retrievedContext chunk in
      if truthy (Option.bind ctx ctx_uri) \<or> truthy (Option.bind ctx ctx_title) then
        collectSources chunks
          (acc @ [\<lparr>title = nullish (Option.bind ctx ctx_title) (nullish (Option.bind ctx ctx_uri) []),
                    uri = nullish (Option.bind ctx ctx_uri) []\<rparr>])
      else collectSources chunks acc)"

definition extractResult :: "GenerateContentResponse \<Rightarrow> QueryResult" where
  "extractResult data =
     (let candidate = firstCandidate data;
          chunks = nullish (Option.bind (Option.bind candidate groundingMetadata) groundingChunks) []
      in \<lparr>answer = extractAnswer candidate, sources = collectSources chunks []\<rparr>)"

text \<open>
  \<^verbatim>\<open>queryFileSearch\<close>: the credential is resolved first, then the store names are
  cut and normalised and checked, then the request is sent. The result comes with the
  requests that were issued. The timer of \<^verbatim>\<open>withTimeout\<close> is not modelled: its delay
  is part of the request, and an abort is one of the ways \<^verbatim>\<open>fetch\<close> rejects.
\<close>

definition queryFileSearch ::
  "ModelAuth option \<Rightarrow> (HttpRequest \<Rightarrow> GenerateContentResponse FetchOutcome) \<Rightarrow> QueryParams
     \<Rightarrow> (error + QueryResult) \<times> HttpRequest list" where
  "queryFileSearch found fetch params =
     (case resolveApiKey found (config params) (agentDir params) of
        Inl e \<Rightarrow> (Inl e, [])
      | Inr key \<Rightarrow>
          if length (storeNamesOf params) = 0 then
            (Inl (Error ''At least one store name is required''), [])
          else
            let req = queryRequest key params in
            (case fetch req of
               Rejected e \<Rightarrow> (Inl e, [req])
             | Resolved res \<Rightarrow>
                 if \<not> ok res then
                   (Inl (Error (''Gemini generateContent failed: '' @ decimal (status res)
                      @ '' '' @ bodyText res)), [req])
                 else
                   (case bodyJson res of
                      None \<Rightarrow> (Inl (External ''res.json() rejected''), [req])
                    | Some data \<Rightarrow> (Inr (extractResult data), [req]))))"


section \<open>The query tool (query-tool.ts)\<close>

text \<open>A tool argument of type \<^verbatim>\<open>unknown\<close>: a string, an array of strings, or something else.\<close>

datatype unknown = Undefined | Str string | Arr "string list" | Other

record ToolParams =
  arg_query :: unknown
  arg_stores :: unknown
  arg_model :: unknown

record ToolContext =
  tool_config :: "OpenClawConfig option"
  tool_agentDir :: "string option"

text \<open>The text the tool returns for a result: the answer, then the numbered sources.\<close>

definition formatSource :: "nat \<times> Source \<Rightarrow> string" where
  "formatSource = (\<lambda>(i, s).
     let label = orElse (Some (title s)) (orElse (Some (uri s)) ''unknown'') in
     if uri s \<noteq> [] then decimal (i + 1) @ ''. ['' @ label @ ''](''  @ uri s @ '')''
     else decimal (i + 1) @ ''. '' @ label)"

definition formatResult :: "QueryResult \<Rightarrow> string" where
  "formatResult result =
     (let first = (if answer result \<noteq> [] then [answer result]
                   else [''No answer was generated for this query.'']);
          rest = (if length (sources result) > 0 then
                    [[], ''**Sources:**''] @ map formatSource (enumerate 0 (sources result))
                  else [])
      in join [CHR 0x0A] (first @ rest))"

text \<open>
  \<^verbatim>\<open>const query = typeof params.query === "string" ? params.query.trim() : "";
  const stores = Array.isArray(params.stores) ? (params.stores as string[]) : [];
  const model = typeof params.model === "string" ? params.model.trim() || undefined : undefined;\<close>
\<close>

definition toolQuery :: "ToolParams \<Rightarrow> string" where
  "toolQuery params = (case arg_query params of Str s \<Rightarrow> trim s | _ \<Rightarrow> [])"

definition toolStores :: "ToolParams \<Rightarrow> string list" where
  "toolStores params = (case arg_stores params of Arr xs \<Rightarrow> xs | _ \<Rightarrow> [])"

definition toolModel :: "ToolParams \<Rightarrow> string option" where
  "toolModel params =
     (case arg_model params of
        Str s \<Rightarrow> if trim s = [] then None else Some (trim s)
      | _ \<Rightarrow> None)"

text \<open>
  \<^verbatim>\<open>execute(_id, params)\<close> of the tool made by \<^verbatim>\<open>createQueryTool(api, ctx)\<close>;
  \<open>pluginConfig\<close> is \<^verbatim>\<open>api.pluginConfig\<close>. The two checks come before the call of
  \<^verbatim>\<open>queryFileSearch\<close>.
\<close>

definition execute ::
  "PluginCfg option \<Rightarrow> ToolContext \<Rightarrow> ModelAuth option
     \<Rightarrow> (HttpRequest \<Rightarrow> GenerateContentResponse FetchOutcome) \<Rightarrow> ToolParams
     \<Rightarrow> (error + string) \<times> HttpRequest list" where
  "execute pluginConfig ctx found fetch params =
     (let pcfg = nullish pluginConfig emptyPluginCfg;
          query = toolQuery params
      in
      if query = [] then (Inl (Error ''query is required''), [])
      else
        let stores = toolStores params in
        if length stores = 0 then (Inl (Error ''at least one store is required''), [])
        else
          let model = toolModel params;
              r = queryFileSearch found fetch
                    \<lparr>config = tool_config ctx, agentDir = tool_agentDir ctx,
                     pluginCfg = Some pcfg, query = query, stores = stores, model = model\<rparr>
          in (case fst r of
                Inl e \<Rightarrow> (Inl e, snd r)
              | Inr result \<Rightarrow> (Inr (formatResult result), snd r)))"

section \<open>The response mapping as the specification words it\<close>

text \<open>
  The specification describes the result of a query by what it contains, not by how it is
  computed: the answer is the trimmed concatenation of the text parts of the first
  candidate (the empty string without one), and the sources are, in chunk order, one entry
  for each grounding chunk of the first candidate whose retrieved context has a non-empty
  URI or a non-empty title. These definitions follow those words; the theorems below
  compare them with \<open>extractResult\<close>.
\<close>

definition spec_parts :: "ContentCandidate \<Rightarrow> ContentPart list" where
  "spec_parts c =
     (case content c of None \<Rightarrow> [] | Some ct \<Rightarrow> (case parts ct of None \<Rightarrow> [] | Some ps \<Rightarrow> ps))"

definition spec_chunks :: "ContentCandidate \<Rightarrow> GroundingChunk list" where
  "spec_chunks c =
     (case groundingMetadata c of None \<Rightarrow> []
      | Some g \<Rightarrow> (case groundingChunks g of None \<Rightarrow> [] | Some chs \<Rightarrow> chs))"

definition spec_answer :: "GenerateContentResponse \<Rightarrow> string" where
  "spec_answer data =
     (case candidates data of
        Some (c # cs) \<Rightarrow>
          trim (concat (map (\<lambda>p. case part_text p of None \<Rightarrow> [] | Some t \<Rightarrow> t) (spec_parts c)))
      | _ \<Rightarrow> [])"

definition nonEmpty :: "string option \<Rightarrow> bool" where
  "nonEmpty v = (case v of None \<Rightarrow> False | Some s \<Rightarrow> s \<noteq> [])"

definition spec_source :: "GroundingChunk \<Rightarrow> Source option" where
  "spec_source chunk =
     (case retrievedContext chunk of
        None \<Rightarrow> None
      | Some ctx \<Rightarrow>
          if nonEmpty (ctx_uri ctx) \<or> nonEmpty (ctx_title ctx) then
            Some \<lparr>title = (case ctx_title ctx of
                              Some t \<Rightarrow> t
                            | None \<Rightarrow> (case ctx_uri ctx of Some u \<Rightarrow> u | None \<Rightarrow> [])),
                  uri = (case ctx_uri ctx of Some u \<Rightarrow> u | None \<Rightarrow> [])\<rparr>
          else None)"

definition spec_sources :: "GenerateContentResponse \<Rightarrow> Source list" where
  "spec_sources data =
     (case candidates data of
        Some (c # cs) \<Rightarrow> List.map_filter spec_source (spec_chunks c)
      | _ \<Rightarrow> [])"

section \<open>Example values\<close>

text \<open>
  The values the examples below run on. \<open>mockModelAuth\<close> is the mocked
  \<^verbatim>\<open>model-auth.js\<close> of gemini-client.test.ts, which always yields the key
  \<^verbatim>\<open>test-api-key\<close>; \<open>noKeyModelAuth\<close> is a resolver that finds no key;
  \<open>jsonResponse\<close> is the helper of the tests that builds a response from its JSON
  payload, its text and its status.
\<close>

definition mockModelAuth :: "ModelAuth option" where
  "mockModelAuth =
     Some \<lparr>resolveApiKeyForProvider =
             (\<lambda>provider cfg dir. Inr \<lparr>apiKey = Some ''test-api-key'', profileId = None,
                                      source = ''test'', mode = ''api-key''\<rparr>),
           requireApiKey = (\<lambda>auth provider. Inr ''test-api-key'')\<rparr>"

definition noKeyModelAuth :: "ModelAuth option" where
  "noKeyModelAuth =
     Some \<lparr>resolveApiKeyForProvider =
             (\<lambda>provider cfg dir. Inl (External ''No API key found for provider google'')),
           requireApiKey = (\<lambda>auth provider. Inr ''unused'')\<rparr>"

definition jsonResponse :: "'d \<Rightarrow> string \<Rightarrow> nat \<Rightarrow> 'd FetchOutcome" where
  "jsonResponse data txt st = Resolved \<lparr>status = st, bodyText = txt, bodyJson = Some data\<rparr>"

definition hostConfig :: "(string \<rightharpoonup> string) \<Rightarrow> OpenClawConfig option" where
  "hostConfig h = Some \<lparr>google = Some \<lparr>baseUrl = None, headers = Some h\<rparr>\<rparr>"

definition cfgMax :: "int option \<Rightarrow> PluginCfg" where
  "cfgMax v = \<lparr>defaultModel = None, maxStoresPerQuery = v, timeoutMs = None\<rparr>"

definition cfgModel :: "string option \<Rightarrow> PluginCfg" where
  "cfgModel d = \<lparr>defaultModel = d, maxStoresPerQuery = None, timeoutMs = None\<rparr>"

definition storeParams :: "string list \<Rightarrow> PluginCfg option \<Rightarrow> QueryParams" where
  "storeParams ss pc =
     \<lparr>config = None, agentDir = None, pluginCfg = pc, query = ''test'', stores = ss, model = None\<rparr>"

definition modelParams :: "string option \<Rightarrow> PluginCfg option \<Rightarrow> QueryParams" where
  "modelParams m pc =
     \<lparr>config = None, agentDir = None, pluginCfg = pc, query = ''test'', stores = [''s''], model = m\<rparr>"


definition noParams :: CallParams where
  "noParams = \<lparr>config = None, agentDir = None, pluginCfg = None\<rparr>"

definition toolArgs :: "string \<Rightarrow> string list \<Rightarrow> ToolParams" where
  "toolArgs q ss = \<lparr>arg_query = Str q, arg_stores = Arr ss, arg_model = Undefined\<rparr>"

definition noContext :: ToolContext where
  "noContext = \<lparr>tool_config = None, tool_agentDir = Some ''/tmp/test''\<rparr>"

definition answer42 :: GenerateContentResponse where
  "answer42 =
     \<lparr>candidates = Some
        [\<lparr>content = Some \<lparr>parts = Some [\<lparr>part_text = Some ''The answer ''\<rparr>, \<lparr>part_text = None\<rparr>,
                                          \<lparr>part_text = Some ''is 42. ''\<rparr>]\<rparr>,
          groundingMetadata = Some \<lparr>groundingChunks = Some
            [\<lparr>retrievedContext = Some \<lparr>ctx_uri = Some ''https://example.com/doc'',
                                         ctx_title = Some ''Doc A''\<rparr>\<rparr>,
             \<lparr>retrievedContext = Some \<lparr>ctx_uri = None, ctx_title = None\<rparr>\<rparr>,
             \<lparr>retrievedContext = None\<rparr>,
             \<lparr>retrievedContext = Some \<lparr>ctx_uri = Some ''https://example.com/b'',
                                         ctx_title = None\<rparr>\<rparr>,
             \<lparr>retrievedContext = Some \<lparr>ctx_uri = None, ctx_title = Some ''Doc C''\<rparr>\<rparr>]\<rparr>\<rparr>]\<rparr>"

definition okAnswer :: GenerateContentResponse where
  "okAnswer = \<lparr>candidates = Some [\<lparr>content = Some \<lparr>parts = Some [\<lparr>part_text = Some ''ok''\<rparr>]\<rparr>,
                                     groundingMetadata = None\<rparr>]\<rparr>"

section \<open>Store-name normalisation\<close>

lemma trim_Nil [simp]: "trim [] = []"
  by (simp add: trim_def)

lemma trim_no_leading: "trim s \<noteq> [] \<Longrightarrow> \<not> isWhiteSpace (hd (trim s))"
proof -
  assume ne: "trim s \<noteq> []"
  define t where "t = dropWhile isWhiteSpace s"
  have t: "t = [] \<or> \<not> isWhiteSpace (hd t)"
    unfolding t_def using hd_dropWhile [of isWhiteSpace s] by blast
  define u where "u = dropWhile isWhiteSpace (rev t)"
  have tr: "trim s = rev u" by (simp add: trim_def t_def u_def)
  then have une: "u \<noteq> []" using ne by simp
  obtain ws where split: "rev t = ws @ u"
    unfolding u_def by (metis takeWhile_dropWhile_id)
  then have "t = rev u @ rev ws" by (metis rev_append rev_rev_ident)
  then have "hd t = hd (rev u)" using une by simp
  moreover have "t \<noteq> []" using split une by auto
  ultimately show ?thesis using t tr by simp
qed

lemma trim_no_trailing: "trim s \<noteq> [] \<Longrightarrow> \<not> isWhiteSpace (last (trim s))"
proof -
  assume ne: "trim s \<noteq> []"
  define u where "u = dropWhile isWhiteSpace (rev (dropWhile isWhiteSpace s))"
  have tr: "trim s = rev u" by (simp add: trim_def u_def)
  then have une: "u \<noteq> []" using ne by simp
  then have "\<not> isWhiteSpace (hd u)" unfolding u_def by (rule hd_dropWhile)
  then show ?thesis using tr une by (simp add: last_rev)
qed

lemma trim_fixed:
  assumes "s = [] \<or> (\<not> isWhiteSpace (hd s) \<and> \<not> isWhiteSpace (last s))"
  shows "trim s = s"
proof (cases "s = []")
  case True
  then show ?thesis by (simp add: trim_def)
next
  case False
  with assms have h: "\<not> isWhiteSpace (hd s)" and l: "\<not> isWhiteSpace (last s)" by auto
  from False h have "dropWhile isWhiteSpace s = s" by (cases s) auto
  moreover from False l have "dropWhile isWhiteSpace (rev s) = rev s"
    by (cases "rev s") (auto simp: last_rev [symmetric] hd_rev)
  ultimately show ?thesis by (simp add: trim_def)
qed

lemma trim_idem: "trim (trim s) = trim s"
  by (rule trim_fixed) (use trim_no_leading trim_no_trailing in blast)

lemma prefix_not_ws: "\<not> isWhiteSpace (CHR ''f'')" "\<not> isWhiteSpace (CHR ''/'')"
  by (simp_all add: isWhiteSpace_def)

lemma trim_prefixed: "trim (STORE_PREFIX @ trim s) = STORE_PREFIX @ trim s"
proof (rule trim_fixed, rule disjI2, rule conjI)
  show "\<not> isWhiteSpace (hd (STORE_PREFIX @ trim s))"
    by (simp add: STORE_PREFIX_def prefix_not_ws)
  show "\<not> isWhiteSpace (last (STORE_PREFIX @ trim s))"
  proof (cases "trim s = []")
    case True
    then show ?thesis by (simp add: STORE_PREFIX_def prefix_not_ws)
  next
    case False
    then show ?thesis using trim_no_trailing [OF False] by simp
  qed
qed

lemma startsWith_append: "startsWith (p @ s) p"
  by (simp add: startsWith_def)

text \<open>
  C6 (as the code has it). The prefix test is \<^verbatim>\<open>startsWith\<close> on the trimmed name:
  a name whose trimmed form does not start with \<open>fileSearchStores/\<close> is mapped to the prefix
  followed by the trimmed name; a name whose trimmed form starts with the prefix is mapped
  to its trimmed form, so that normalisation is the identity on trimmed, prefixed names;
  and normalising twice equals normalising once.
\<close>

theorem normalizeStoreName_spec:
  "(\<not> startsWith (trim s) STORE_PREFIX \<longrightarrow> normalizeStoreName s = STORE_PREFIX @ trim s) \<and>
   (startsWith (trim s) STORE_PREFIX \<longrightarrow> normalizeStoreName s = trim s) \<and>
   (startsWith s STORE_PREFIX \<and> trim s = s \<longrightarrow> normalizeStoreName s = s) \<and>
   normalizeStoreName (normalizeStoreName s) = normalizeStoreName s"
proof -
  have idem: "normalizeStoreName (normalizeStoreName s) = normalizeStoreName s"
  proof (cases "startsWith (trim s) STORE_PREFIX")
    case True
    then show ?thesis by (simp add: normalizeStoreName_def trim_idem)
  next
    case False
    then show ?thesis
      by (simp add: normalizeStoreName_def trim_prefixed startsWith_append)
  qed
  then show ?thesis by (simp add: normalizeStoreName_def)
qed

theorem normalizeStoreName_spec_witness:
  "normalizeStoreName ''short-id'' = ''fileSearchStores/short-id'' \<and>
   normalizeStoreName '' fileSearchStores/full-id '' = ''fileSearchStores/full-id'' \<and>
   normalizeStoreName ''fileSearchStores/full-id'' = ''fileSearchStores/full-id'' \<and>
   normalizeStoreName (normalizeStoreName '' a '') = normalizeStoreName '' a ''"
  using normalizeStoreName_spec [of "''short-id''"]
    normalizeStoreName_spec [of "'' fileSearchStores/full-id ''"]
    normalizeStoreName_spec [of "''fileSearchStores/full-id''"]
    normalizeStoreName_spec [of "'' a ''"]
  by (simp add: normalizeStoreName_def trim_def startsWith_def STORE_PREFIX_def
      isWhiteSpace_def)

text \<open>
  C6 as worded fails: a name that already contains (even starts with) the prefix is not
  left unchanged when it carries surrounding white space, and a name that contains the
  prefix elsewhere than at its start is prefixed again.
\<close>

theorem normalizeStoreName_identity_counterexample:
  "startsWith ''fileSearchStores/abc '' STORE_PREFIX \<and>
   normalizeStoreName ''fileSearchStores/abc '' \<noteq> ''fileSearchStores/abc '' \<and>
   includesStr ''x/fileSearchStores/y'' STORE_PREFIX \<and>
   normalizeStoreName ''x/fileSearchStores/y'' \<noteq> ''x/fileSearchStores/y''"
  by (simp add: normalizeStoreName_def trim_def startsWith_def includesStr_def
      STORE_PREFIX_def isWhiteSpace_def)

section \<open>Requests issued and their headers\<close>

lemma resolveApiKey_mock [simp]: "resolveApiKey mockModelAuth cfg dir = Inr ''test-api-key''"
  by (simp add: resolveApiKey_def loadModelAuth_def mockModelAuth_def)

lemma resolveApiKey_noKey [simp]:
  "resolveApiKey noKeyModelAuth cfg dir = Inl (External ''No API key found for provider google'')"
  by (simp add: resolveApiKey_def loadModelAuth_def noKeyModelAuth_def)

lemma ok_200 [simp]: "ok \<lparr>status = 200, bodyText = t, bodyJson = j\<rparr>"
  by (simp add: ok_def)

lemma not_ok_4xx [simp]:
  "\<not> ok \<lparr>status = 429, bodyText = t, bodyJson = j\<rparr>" "\<not> ok \<lparr>status = 403, bodyText = t, bodyJson = j\<rparr>"
  by (simp_all add: ok_def)

lemma config_storeParams [simp]:
  "config (storeParams ss pc) = None" "agentDir (storeParams ss pc) = None"
  by (simp_all add: storeParams_def)

lemma buildHeaders_key:
  "buildHeaders key cfg ''x-goog-api-key'' =
     Some (nullish (Option.bind (Option.bind (Option.bind cfg google) headers)
                      (\<lambda>h. h ''x-goog-api-key'')) key)"
  by (simp add: buildHeaders_def nullish_def map_add_def split: option.splits Option.bind_splits)

lemma list_trace:
  "snd (listFileSearchStores found fetch params) =
     (case resolveApiKey found (config params) (agentDir params) of
        Inl e \<Rightarrow> [] | Inr key \<Rightarrow> [listRequest key params])"
  by (simp add: listFileSearchStores_def Let_def split: sum.splits FetchOutcome.splits option.splits)

lemma query_trace:
  "snd (queryFileSearch found fetch params) =
     (case resolveApiKey found (config params) (agentDir params) of
        Inl e \<Rightarrow> []
      | Inr key \<Rightarrow> if storeNamesOf params = [] then [] else [queryRequest key params])"
  by (simp add: queryFileSearch_def Let_def split: sum.splits FetchOutcome.splits option.splits)

lemma req_headers_list [simp]: "req_headers (listRequest key params) = buildHeaders key (config params)"
  by (simp add: listRequest_def Let_def)

lemma req_headers_query [simp]: "req_headers (queryRequest key params) = buildHeaders key (config params)"
  by (simp add: queryRequest_def Let_def)

lemma buildHeaders_host:
  "Option.bind (Option.bind cfg google) headers = Some h \<Longrightarrow> h k = Some v \<Longrightarrow>
   buildHeaders key cfg k = Some v"
  by (simp add: buildHeaders_def nullish_def map_add_def)

lemma buildHeaders_fixed:
  "nullish (Option.bind (Option.bind cfg google) headers) Map.empty k = None \<Longrightarrow>
   buildHeaders key cfg k =
     (if k = ''x-goog-api-key'' then Some key
      else if k = ''Content-Type'' then Some ''application/json'' else None)"
  by (simp add: buildHeaders_def map_add_def)

text \<open>
  C1 (as the code has it). The host's provider headers are spread last into the header
  object, so they win on every key: whatever header the host sets, the API-key header and
  the content type included, is the value of that header in the result, and only a header
  the host does not set keeps the client's value (the freshly resolved key for
  \<open>x-goog-api-key\<close>, \<open>application/json\<close> for \<open>Content-Type\<close>). When the credential
  resolves, \<open>listFileSearchStores\<close> issues one request, and \<open>queryFileSearch\<close> one request
  when its store list is not empty, each with exactly the headers of \<open>buildHeaders\<close> for
  the resolved key; no request carries other headers.
\<close>

theorem host_headers_override:
  "(\<forall>h k v. Option.bind (Option.bind cfg google) headers = Some h \<and> h k = Some v
       \<longrightarrow> buildHeaders key cfg k = Some v) \<and>
   (\<forall>k. nullish (Option.bind (Option.bind cfg google) headers) Map.empty k = None
       \<longrightarrow> buildHeaders key cfg k =
            (if k = ''x-goog-api-key'' then Some key
             else if k = ''Content-Type'' then Some ''application/json'' else None)) \<and>
   buildHeaders key cfg ''x-goog-api-key'' =
     Some (nullish (Option.bind (Option.bind (Option.bind cfg google) headers)
                      (\<lambda>h. h ''x-goog-api-key'')) key) \<and>
   (\<forall>k. resolveApiKey found (config lp) (agentDir lp) = Inr k
       \<longrightarrow> map req_headers (snd (listFileSearchStores found fetchL lp)) = [buildHeaders k (config lp)]) \<and>
   (\<forall>k. resolveApiKey found (config qp) (agentDir qp) = Inr k \<and> storeNamesOf qp \<noteq> []
       \<longrightarrow> map req_headers (snd (queryFileSearch found fetchQ qp)) = [buildHeaders k (config qp)]) \<and>
   (\<forall>req \<in> set (snd (listFileSearchStores found fetchL lp)).
      \<exists>k. resolveApiKey found (config lp) (agentDir lp) = Inr k \<and>
          req_headers req = buildHeaders k (config lp)) \<and>
   (\<forall>req \<in> set (snd (queryFileSearch found fetchQ qp)).
      \<exists>k. resolveApiKey found (config qp) (agentDir qp) = Inr k \<and>
          req_headers req = buildHeaders k (config qp))"
proof -
  have host: "\<forall>h k v. Option.bind (Option.bind cfg google) headers = Some h \<and> h k = Some v
       \<longrightarrow> buildHeaders key cfg k = Some v"
    using buildHeaders_host by blast
  have fixed: "\<forall>k. nullish (Option.bind (Option.bind cfg google) headers) Map.empty k = None
       \<longrightarrow> buildHeaders key cfg k =
            (if k = ''x-goog-api-key'' then Some key
             else if k = ''Content-Type'' then Some ''application/json'' else None)"
    using buildHeaders_fixed by blast
  have sentL: "\<forall>k. resolveApiKey found (config lp) (agentDir lp) = Inr k
       \<longrightarrow> map req_headers (snd (listFileSearchStores found fetchL lp)) = [buildHeaders k (config lp)]"
    by (simp add: list_trace)
  have sentQ: "\<forall>k. resolveApiKey found (config qp) (agentDir qp) = Inr k \<and> storeNamesOf qp \<noteq> []
       \<longrightarrow> map req_headers (snd (queryFileSearch found fetchQ qp)) = [buildHeaders k (config qp)]"
    by (simp add: query_trace)
  have allL: "\<forall>req \<in> set (snd (listFileSearchStores found fetchL lp)).
      \<exists>k. resolveApiKey found (config lp) (agentDir lp) = Inr k \<and>
          req_headers req = buildHeaders k (config lp)"
    by (cases "resolveApiKey found (config lp) (agentDir lp)") (simp_all add: list_trace)
  have allQ: "\<forall>req \<in> set (snd (queryFileSearch found fetchQ qp)).
      \<exists>k. resolveApiKey found (config qp) (agentDir qp) = Inr k \<and>
          req_headers req = buildHeaders k (config qp)"
    by (cases "resolveApiKey found (config qp) (agentDir qp)") (simp_all add: query_trace)
  from host fixed buildHeaders_key [of key cfg] sentL sentQ allL allQ show ?thesis
    by (intro conjI)
qed

theorem host_headers_override_witness:
  "buildHeaders ''fresh-key'' (hostConfig [''Content-Type'' \<mapsto> ''text/plain'']) ''Content-Type''
     = Some ''text/plain'' \<and>
   buildHeaders ''fresh-key'' (hostConfig [''Content-Type'' \<mapsto> ''text/plain'']) ''x-goog-api-key''
     = Some ''fresh-key'' \<and>
   buildHeaders ''fresh-key'' (hostConfig [''x-goog-api-key'' \<mapsto> ''host-key'']) ''x-goog-api-key''
     = Some ''host-key'' \<and>
   buildHeaders ''fresh-key'' (hostConfig [''x-goog-api-key'' \<mapsto> ''host-key'']) ''Content-Type''
     = Some ''application/json'' \<and>
   map (\<lambda>req. req_headers req ''x-goog-api-key'')
     (snd (queryFileSearch mockModelAuth (\<lambda>req. jsonResponse \<lparr>candidates = None\<rparr> ''{}'' 200)
        \<lparr>config = hostConfig [''x-goog-api-key'' \<mapsto> ''host-key''], agentDir = None, pluginCfg = None,
         query = ''q'', stores = [''s''], model = None\<rparr>)) = [Some ''host-key''] \<and>
   map (\<lambda>req. req_headers req ''Content-Type'')
     (snd (listFileSearchStores mockModelAuth (\<lambda>req. jsonResponse \<lparr>fileSearchStores = None\<rparr> ''{}'' 200)
        \<lparr>config = hostConfig [''Content-Type'' \<mapsto> ''text/plain''], agentDir = None,
         pluginCfg = None\<rparr>)) = [Some ''text/plain'']"
proof -
  let ?ct = "hostConfig [''Content-Type'' \<mapsto> ''text/plain'']"
  let ?ak = "hostConfig [''x-goog-api-key'' \<mapsto> ''host-key'']"
  let ?qp = "\<lparr>config = ?ak, agentDir = None, pluginCfg = None,
         query = ''q'', stores = [''s''], model = None\<rparr>"
  let ?lp = "\<lparr>config = ?ct, agentDir = None, pluginCfg = None\<rparr>"
  let ?fq = "\<lambda>req::HttpRequest. jsonResponse \<lparr>candidates = None\<rparr> ''{}'' 200"
  let ?fl = "\<lambda>req::HttpRequest. jsonResponse \<lparr>fileSearchStores = None\<rparr> ''{}'' 200"
  note ct = host_headers_override [where cfg = ?ct and key = "''fresh-key''" and found = mockModelAuth
      and lp = ?lp and qp = ?qp and fetchL = ?fl and fetchQ = ?fq]
  note ak = host_headers_override [where cfg = ?ak and key = "''fresh-key''" and found = mockModelAuth
      and lp = ?lp and qp = ?qp and fetchL = ?fl and fetchQ = ?fq]
  have hct: "Option.bind (Option.bind ?ct google) headers = Some [''Content-Type'' \<mapsto> ''text/plain'']"
    by (simp add: hostConfig_def)
  have hak: "Option.bind (Option.bind ?ak google) headers = Some [''x-goog-api-key'' \<mapsto> ''host-key'']"
    by (simp add: hostConfig_def)
  have a: "buildHeaders ''fresh-key'' ?ct ''Content-Type'' = Some ''text/plain''"
    using ct [THEN conjunct1, rule_format, of "[''Content-Type'' \<mapsto> ''text/plain'']" "''Content-Type''" "''text/plain''"] hct
    by simp
  have b: "buildHeaders ''fresh-key'' ?ct ''x-goog-api-key'' = Some ''fresh-key''"
    using ct [THEN conjunct2, THEN conjunct1, rule_format, of "''x-goog-api-key''"] hct
    by (simp add: nullish_def)
  have c: "buildHeaders ''fresh-key'' ?ak ''x-goog-api-key'' = Some ''host-key''"
    using ak [THEN conjunct1, rule_format, of "[''x-goog-api-key'' \<mapsto> ''host-key'']" "''x-goog-api-key''" "''host-key''"] hak
    by simp
  have d: "buildHeaders ''fresh-key'' ?ak ''Content-Type'' = Some ''application/json''"
    using ak [THEN conjunct2, THEN conjunct1, rule_format, of "''Content-Type''"] hak
    by (simp add: nullish_def)
  have names: "storeNamesOf ?qp \<noteq> []"
    by (simp add: storeNamesOf_def nullish_def emptyPluginCfg_def effectiveMaxStores_def
        MAX_STORES_HARD_LIMIT_def slice0_def)
  have q: "map req_headers (snd (queryFileSearch mockModelAuth ?fq ?qp)) = [buildHeaders ''test-api-key'' ?ak]"
    using ak [THEN conjunct2, THEN conjunct2, THEN conjunct2, THEN conjunct2, THEN conjunct1,
        rule_format, of "''test-api-key''"] names
    by simp
  have l: "map req_headers (snd (listFileSearchStores mockModelAuth ?fl ?lp)) = [buildHeaders ''test-api-key'' ?ct]"
    using ct [THEN conjunct2, THEN conjunct2, THEN conjunct2, THEN conjunct1,
        rule_format, of "''test-api-key''"]
    by simp
  have q': "map (\<lambda>req. req_headers req ''x-goog-api-key'') (snd (queryFileSearch mockModelAuth ?fq ?qp))
      = [Some ''host-key'']"
  proof -
    have "map (\<lambda>req. req_headers req ''x-goog-api-key'') (snd (queryFileSearch mockModelAuth ?fq ?qp))
      = map (\<lambda>hs. hs ''x-goog-api-key'') (map req_headers (snd (queryFileSearch mockModelAuth ?fq ?qp)))"
      by (simp add: comp_def)
    also have "\<dots> = [buildHeaders ''test-api-key'' ?ak ''x-goog-api-key'']"
      by (simp only: q list.map)
    also have "\<dots> = [Some ''host-key'']"
      by (simp add: buildHeaders_key hostConfig_def nullish_def)
    finally show ?thesis .
  qed
  have l': "map (\<lambda>req. req_headers req ''Content-Type'') (snd (listFileSearchStores mockModelAuth ?fl ?lp))
      = [Some ''text/plain'']"
  proof -
    have "map (\<lambda>req. req_headers req ''Content-Type'') (snd (listFileSearchStores mockModelAuth ?fl ?lp))
      = map (\<lambda>hs. hs ''Content-Type'') (map req_headers (snd (listFileSearchStores mockModelAuth ?fl ?lp)))"
      by (simp add: comp_def)
    also have "\<dots> = [buildHeaders ''test-api-key'' ?ct ''Content-Type'']"
      by (simp only: l list.map)
    also have "\<dots> = [Some ''text/plain'']"
      by (simp add: buildHeaders_host [OF hct])
    finally show ?thesis .
  qed
  from a b c d q' l' show ?thesis by (intro conjI)
qed

text \<open>
  C1 as worded fails: with a host header \<open>x-goog-api-key\<close> the effective header is the
  host's value, not the freshly resolved key.
\<close>

theorem api_key_header_override_counterexample:
  "buildHeaders ''fresh-key'' (hostConfig [''x-goog-api-key'' \<mapsto> ''host-key'']) ''x-goog-api-key''
     = Some ''host-key'' \<and>
   buildHeaders ''fresh-key'' (hostConfig [''x-goog-api-key'' \<mapsto> ''host-key'']) ''x-goog-api-key''
     \<noteq> Some ''fresh-key''"
  by (simp add: buildHeaders_def hostConfig_def nullish_def)

section \<open>The cap on the number of stores\<close>

text \<open>
  C2 (as the code has it). The cap is \<open>min (maxStoresPerQuery ?? 5) 5\<close>: it never exceeds
  the hard limit 5, and it lies in the range from 1 to 5 whenever \<open>maxStoresPerQuery\<close> is
  absent or at least 1.
\<close>

theorem effectiveMaxStores_range:
  "effectiveMaxStores pcfg \<le> MAX_STORES_HARD_LIMIT \<and>
   MAX_STORES_HARD_LIMIT = 5 \<and>
   ((maxStoresPerQuery pcfg = None \<or> (\<exists>v. maxStoresPerQuery pcfg = Some v \<and> 1 \<le> v))
      \<longrightarrow> 1 \<le> effectiveMaxStores pcfg)"
  by (auto simp: effectiveMaxStores_def nullish_def MAX_STORES_HARD_LIMIT_def)

theorem effectiveMaxStores_range_witness:
  "effectiveMaxStores (cfgMax None) = 5 \<and> effectiveMaxStores (cfgMax (Some 3)) = 3 \<and>
   1 \<le> effectiveMaxStores (cfgMax (Some 9)) \<and> effectiveMaxStores (cfgMax (Some 9)) \<le> 5"
proof -
  have absent: "effectiveMaxStores (cfgMax None) = 5"
    using effectiveMaxStores_range [of "cfgMax None"]
    by (simp add: effectiveMaxStores_def nullish_def MAX_STORES_HARD_LIMIT_def cfgMax_def)
  have low: "effectiveMaxStores (cfgMax (Some 3)) = 3"
    using effectiveMaxStores_range [of "cfgMax (Some 3)"]
    by (simp add: effectiveMaxStores_def nullish_def MAX_STORES_HARD_LIMIT_def cfgMax_def)
  have high: "1 \<le> effectiveMaxStores (cfgMax (Some 9)) \<and> effectiveMaxStores (cfgMax (Some 9)) \<le> 5"
    using effectiveMaxStores_range [of "cfgMax (Some 9)"]
    by (simp add: effectiveMaxStores_def nullish_def MAX_STORES_HARD_LIMIT_def cfgMax_def)
  from absent low high show ?thesis by blast
qed

text \<open>
  C2 as worded fails: there is no lower clamp, so a configured 0 gives the cap 0 and a
  configured negative value gives that negative cap.
\<close>

theorem effectiveMaxStores_lower_bound_counterexample:
  "effectiveMaxStores (cfgMax (Some 0)) = 0 \<and> effectiveMaxStores (cfgMax (Some (- 2))) = - 2 \<and>
   \<not> 1 \<le> effectiveMaxStores (cfgMax (Some 0))"
  by (simp add: effectiveMaxStores_def nullish_def MAX_STORES_HARD_LIMIT_def cfgMax_def)

lemma slice0_take: "0 \<le> e \<Longrightarrow> slice0 xs e = take (nat e) xs"
  by (simp add: slice0_def Let_def min_def)

lemma slice0_Nil [simp]: "slice0 [] e = []"
  by (simp add: slice0_def)

lemma storeNamesOf_empty: "stores params = [] \<Longrightarrow> storeNamesOf params = []"
  by (simp add: storeNamesOf_def)









section \<open>Failing before the request\<close>

text \<open>
  C4 (as the code has it). A blank query makes the tool fail with \<open>query is required\<close>,
  and a non-blank query with an empty store list makes it fail with
  \<open>at least one store is required\<close>, both before \<open>queryFileSearch\<close> is called. Called
  with an empty store list, \<open>queryFileSearch\<close> itself fails with
  \<open>At least one store name is required\<close> when the credential resolves, and with the
  resolver's failure otherwise. No request is issued in any of these cases.
\<close>

theorem query_fails_before_any_request:
  "(toolQuery tp = [] \<longrightarrow>
      execute pluginConfig ctx found fetch tp = (Inl (Error ''query is required''), [])) \<and>
   (toolQuery tp \<noteq> [] \<and> toolStores tp = [] \<longrightarrow>
      execute pluginConfig ctx found fetch tp = (Inl (Error ''at least one store is required''), [])) \<and>
   (stores params = [] \<longrightarrow>
      queryFileSearch found fetch params =
        (case resolveApiKey found (config params) (agentDir params) of
           Inl e \<Rightarrow> (Inl e, [])
         | Inr key \<Rightarrow> (Inl (Error ''At least one store name is required''), [])))"
  by (simp add: execute_def queryFileSearch_def storeNamesOf_empty split: sum.splits)

theorem query_fails_before_any_request_witness:
  "execute None noContext mockModelAuth (\<lambda>req. jsonResponse okAnswer ''{}'' 200) (toolArgs '' '' [''s''])
     = (Inl (Error ''query is required''), []) \<and>
   execute None noContext mockModelAuth (\<lambda>req. jsonResponse okAnswer ''{}'' 200) (toolArgs ''q'' [])
     = (Inl (Error ''at least one store is required''), []) \<and>
   queryFileSearch mockModelAuth (\<lambda>req. jsonResponse okAnswer ''{}'' 200) (storeParams [] None)
     = (Inl (Error ''At least one store name is required''), [])"
proof -
  have q: "toolQuery (toolArgs '' '' [''s'']) = []"
    by (simp add: toolQuery_def toolArgs_def trim_def isWhiteSpace_def)
  have s: "toolQuery (toolArgs ''q'' []) \<noteq> [] \<and> toolStores (toolArgs ''q'' []) = []"
    by (simp add: toolQuery_def toolStores_def toolArgs_def trim_def isWhiteSpace_def)
  have e: "stores (storeParams [] None) = []"
    by (simp add: storeParams_def)
  note blank = query_fails_before_any_request
    [of "toolArgs '' '' [''s'']" None noContext mockModelAuth
      "\<lambda>req. jsonResponse okAnswer ''{}'' 200", THEN conjunct1, rule_format, OF q]
  note nostores = query_fails_before_any_request
    [of "toolArgs ''q'' []" None noContext mockModelAuth
      "\<lambda>req. jsonResponse okAnswer ''{}'' 200", THEN conjunct2, THEN conjunct1, rule_format, OF s]
  note core = query_fails_before_any_request
    [of _ _ _ mockModelAuth "\<lambda>req. jsonResponse okAnswer ''{}'' 200" "storeParams [] None",
      THEN conjunct2, THEN conjunct2, rule_format, OF e]
  from core have core': "queryFileSearch mockModelAuth (\<lambda>req. jsonResponse okAnswer ''{}'' 200)
      (storeParams [] None) = (Inl (Error ''At least one store name is required''), [])"
    by simp
  from blank nostores core' show ?thesis by (intro conjI)
qed

text \<open>
  C4 as worded fails: with an empty store list \<open>queryFileSearch\<close> raises the failure of the
  credential resolver, not the validation error, when no key is found; and through the
  tool the empty store list is rejected by the tool's own check, with the tool's message.
\<close>

theorem empty_stores_credential_failure_counterexample:
  "stores (storeParams [] None) = [] \<and>
   queryFileSearch noKeyModelAuth (\<lambda>req. jsonResponse okAnswer ''{}'' 200) (storeParams [] None)
     = (Inl (External ''No API key found for provider google''), []) \<and>
   fst (queryFileSearch noKeyModelAuth (\<lambda>req. jsonResponse okAnswer ''{}'' 200) (storeParams [] None))
     \<noteq> Inl (Error ''At least one store name is required'') \<and>
   fst (execute None noContext mockModelAuth (\<lambda>req. jsonResponse okAnswer ''{}'' 200) (toolArgs ''q'' []))
     \<noteq> Inl (Error ''At least one store name is required'')"
proof -
  have core: "queryFileSearch noKeyModelAuth (\<lambda>req. jsonResponse okAnswer ''{}'' 200) (storeParams [] None)
     = (Inl (External ''No API key found for provider google''), [])"
    by (simp add: queryFileSearch_def)
  have tool: "execute None noContext mockModelAuth (\<lambda>req. jsonResponse okAnswer ''{}'' 200)
      (toolArgs ''q'' []) = (Inl (Error ''at least one store is required''), [])"
    by (simp add: execute_def toolQuery_def toolStores_def toolArgs_def trim_def isWhiteSpace_def)
  have e: "stores (storeParams [] None) = []"
    by (simp add: storeParams_def)
  show ?thesis by (simp add: core tool e)
qed

text \<open>
  C10. \<open>queryFileSearch\<close> resolves the credential first: a failure of the resolver is the
  result of the call whatever the store list is, and when the store list is empty after
  the cut, the error \<open>At least one store name is required\<close> is the result exactly when the
  credential resolves. No request is issued in either case.
\<close>

theorem credential_resolved_before_validation:
  "(\<forall>e. resolveApiKey found (config params) (agentDir params) = Inl e
        \<longrightarrow> queryFileSearch found fetch params = (Inl e, [])) \<and>
   (slice0 (stores params) (effectiveMaxStores (nullish (pluginCfg params) emptyPluginCfg)) = []
      \<longrightarrow> (\<forall>k. resolveApiKey found (config params) (agentDir params) = Inr k
                \<longrightarrow> queryFileSearch found fetch params
                      = (Inl (Error ''At least one store name is required''), [])))"
  by (simp add: queryFileSearch_def storeNamesOf_def)

theorem credential_resolved_before_validation_witness:
  "queryFileSearch noKeyModelAuth (\<lambda>req. jsonResponse answer42 ''{}'' 200) (storeParams [] None)
     = (Inl (External ''No API key found for provider google''), []) \<and>
   queryFileSearch mockModelAuth (\<lambda>req. jsonResponse answer42 ''{}'' 200) (storeParams [] None)
     = (Inl (Error ''At least one store name is required''), [])"
  using credential_resolved_before_validation
      [of noKeyModelAuth "storeParams [] None" "\<lambda>req. jsonResponse answer42 ''{}'' 200"]
    credential_resolved_before_validation
      [of mockModelAuth "storeParams [] None" "\<lambda>req. jsonResponse answer42 ''{}'' 200"]
  by (simp add: slice0_def storeParams_def)

section \<open>Cutting the store list\<close>

lemma collectSources_map_filter:
  "collectSources chunks acc = acc @ List.map_filter spec_source chunks"
proof (induction chunks arbitrary: acc)
  case Nil
  then show ?case by (simp add:)
next
  case (Cons chunk chunks)
  show ?case
  proof (cases "retrievedContext chunk")
    case None
    then show ?thesis
      by (simp add: Cons.IH spec_source_def truthy_def)
  next
    case (Some ctx)
    then show ?thesis
      by (simp add: Cons.IH spec_source_def truthy_def nonEmpty_def
          nullish_def split: option.splits)
  qed
qed

lemma extractResult_spec:
  "extractResult data = \<lparr>answer = spec_answer data, sources = spec_sources data\<rparr>"
proof (cases "firstCandidate data")
  case None
  then have "candidates data = None \<or> candidates data = Some []"
    by (auto simp: firstCandidate_def split: option.splits list.splits)
  then show ?thesis
    by (auto simp: extractResult_def firstCandidate_def extractAnswer_def nullish_def
        spec_answer_def spec_sources_def)
next
  case (Some c)
  then obtain cs where cs: "candidates data = Some (c # cs)"
    by (auto simp: firstCandidate_def split: option.splits list.splits)
  have ans: "extractAnswer (Some c) = spec_answer data"
    by (simp add: extractAnswer_def spec_answer_def cs spec_parts_def nullish_def
        split: option.splits)
  have chunks: "nullish (Option.bind (groundingMetadata c) groundingChunks) [] = spec_chunks c"
    by (simp add: spec_chunks_def nullish_def split: option.splits)
  show ?thesis
    by (simp add: extractResult_def Some ans chunks collectSources_map_filter spec_sources_def cs)
qed

lemma storeNamesOf_stores_update:
  "0 \<le> effectiveMaxStores (nullish (pluginCfg params) emptyPluginCfg) \<Longrightarrow>
   storeNamesOf (params\<lparr>stores := take (nat (effectiveMaxStores (nullish (pluginCfg params) emptyPluginCfg))) (stores params)\<rparr>)
     = storeNamesOf params"
  by (simp add: storeNamesOf_def slice0_take)

lemma queryRequest_cong:
  "storeNamesOf p' = storeNamesOf p \<Longrightarrow> config p' = config p \<Longrightarrow> pluginCfg p' = pluginCfg p \<Longrightarrow>
   model p' = model p \<Longrightarrow> query p' = query p \<Longrightarrow> queryRequest key p' = queryRequest key p"
  by (simp add: queryRequest_def)

lemma queryFileSearch_cong:
  assumes "storeNamesOf p' = storeNamesOf p" "config p' = config p" "agentDir p' = agentDir p"
    "pluginCfg p' = pluginCfg p" "model p' = model p" "query p' = query p"
  shows "queryFileSearch found fetch p' = queryFileSearch found fetch p"
proof -
  have req: "queryRequest key p' = queryRequest key p" for key
    by (rule queryRequest_cong) (simp_all only: assms)
  show ?thesis unfolding queryFileSearch_def assms req ..
qed

lemma normalize_letters:
  "map normalizeStoreName [''a'', ''b'', ''c'', ''d'', ''e'', ''f'', ''g''] =
     [''fileSearchStores/a'', ''fileSearchStores/b'', ''fileSearchStores/c'', ''fileSearchStores/d'',
      ''fileSearchStores/e'', ''fileSearchStores/f'', ''fileSearchStores/g'']"
  by (simp add: normalizeStoreName_def trim_def startsWith_def STORE_PREFIX_def isWhiteSpace_def)

text \<open>
  C5 (as the code has it). When the cap is at least 1, the credential resolves and more
  stores are given than the cap, \<open>queryFileSearch\<close> issues one request whose body names
  exactly \<open>cap\<close> stores, the first \<open>cap\<close> of the input in their order, each normalised.
  The call is indistinguishable from the call with the list already cut: same result, same
  request, so the result carries no trace of the cut; and a successful response gives a
  result, not an error.
\<close>

theorem excess_stores_are_cut:
  assumes "resolveApiKey found (config params) (agentDir params) = Inr key"
    and "cap = effectiveMaxStores (nullish (pluginCfg params) emptyPluginCfg)"
    and "1 \<le> cap"
    and "cap < int (length (stores params))"
  shows "snd (queryFileSearch found fetch params) = [queryRequest key params] \<and>
    req_body (queryRequest key params) =
      Some \<lparr>contents_text = query params,
            fileSearchStoreNames = map normalizeStoreName (take (nat cap) (stores params))\<rparr> \<and>
    length (map normalizeStoreName (take (nat cap) (stores params))) = nat cap \<and>
    queryFileSearch found fetch params =
      queryFileSearch found fetch (params\<lparr>stores := take (nat cap) (stores params)\<rparr>) \<and>
    (\<forall>res data. fetch (queryRequest key params) = Resolved res \<and> ok res \<and> bodyJson res = Some data
        \<longrightarrow> fst (queryFileSearch found fetch params) = Inr (extractResult data))"
proof -
  have names: "storeNamesOf params = map normalizeStoreName (take (nat cap) (stores params))"
    using assms(2,3) by (simp add: storeNamesOf_def slice0_take)
  have len: "length (take (nat cap) (stores params)) = nat cap"
    using assms(3,4) by simp
  then have ne: "storeNamesOf params \<noteq> []"
    using names assms(3) by auto
  have trace: "snd (queryFileSearch found fetch params) = [queryRequest key params]"
    using assms(1) ne by (simp add: query_trace)
  have body: "req_body (queryRequest key params) =
      Some \<lparr>contents_text = query params,
            fileSearchStoreNames = map normalizeStoreName (take (nat cap) (stores params))\<rparr>"
    by (simp add: queryRequest_def Let_def names)
  have same: "queryFileSearch found fetch params =
      queryFileSearch found fetch (params\<lparr>stores := take (nat cap) (stores params)\<rparr>)"
    using assms(2,3) storeNamesOf_stores_update [of params]
    by (intro queryFileSearch_cong [symmetric]) simp_all
  have good: "fst (queryFileSearch found fetch params) = Inr (extractResult data)"
    if "fetch (queryRequest key params) = Resolved res" "ok res" "bodyJson res = Some data"
    for res data
    using assms(1) ne that by (simp add: queryFileSearch_def)
  from trace body len same good show ?thesis by simp
qed

theorem excess_stores_are_cut_witness:
  "map (\<lambda>req. map_option fileSearchStoreNames (req_body req))
     (snd (queryFileSearch mockModelAuth (\<lambda>req. jsonResponse okAnswer ''{}'' 200)
        (storeParams [''a'', ''b'', ''c'', ''d'', ''e'', ''f'', ''g''] (Some (cfgMax (Some 3))))))
     = [Some [''fileSearchStores/a'', ''fileSearchStores/b'', ''fileSearchStores/c'']] \<and>
   fst (queryFileSearch mockModelAuth (\<lambda>req. jsonResponse okAnswer ''{}'' 200)
        (storeParams [''a'', ''b'', ''c'', ''d'', ''e'', ''f'', ''g''] (Some (cfgMax (Some 3)))))
     = Inr \<lparr>answer = ''ok'', sources = []\<rparr>"
proof -
  let ?p = "storeParams [''a'', ''b'', ''c'', ''d'', ''e'', ''f'', ''g''] (Some (cfgMax (Some 3)))"
  let ?fetch = "\<lambda>req::HttpRequest. jsonResponse okAnswer ''{}'' 200"
  have cap: "effectiveMaxStores (nullish (pluginCfg ?p) emptyPluginCfg) = 3"
    by (simp add: storeParams_def nullish_def cfgMax_def effectiveMaxStores_def
        MAX_STORES_HARD_LIMIT_def)
  have cut: "snd (queryFileSearch mockModelAuth ?fetch ?p) = [queryRequest ''test-api-key'' ?p] \<and>
    req_body (queryRequest ''test-api-key'' ?p) =
      Some \<lparr>contents_text = query ?p,
            fileSearchStoreNames = map normalizeStoreName (take (nat 3) (stores ?p))\<rparr> \<and>
    length (map normalizeStoreName (take (nat 3) (stores ?p))) = nat 3 \<and>
    queryFileSearch mockModelAuth ?fetch ?p =
      queryFileSearch mockModelAuth ?fetch (?p\<lparr>stores := take (nat 3) (stores ?p)\<rparr>) \<and>
    (\<forall>res data. ?fetch (queryRequest ''test-api-key'' ?p) = Resolved res \<and> ok res \<and> bodyJson res = Some data
        \<longrightarrow> fst (queryFileSearch mockModelAuth ?fetch ?p) = Inr (extractResult data))"
    by (rule excess_stores_are_cut) (simp_all add: cap, simp add: storeParams_def)
  have names: "map normalizeStoreName (take (nat 3) (stores ?p)) =
      [''fileSearchStores/a'', ''fileSearchStores/b'', ''fileSearchStores/c'']"
    using normalize_letters by (simp add: storeParams_def)
  have res: "extractResult okAnswer = \<lparr>answer = ''ok'', sources = []\<rparr>"
    by (simp add: extractResult_spec spec_answer_def spec_sources_def okAnswer_def spec_parts_def
        spec_chunks_def trim_def isWhiteSpace_def)
  note trace = cut [THEN conjunct1]
  note body = cut [THEN conjunct2, THEN conjunct1]
  note good = cut [THEN conjunct2, THEN conjunct2, THEN conjunct2, THEN conjunct2]
  have "fst (queryFileSearch mockModelAuth ?fetch ?p) = Inr (extractResult okAnswer)"
    by (rule good [rule_format, of "\<lparr>status = 200, bodyText = ''{}'', bodyJson = Some okAnswer\<rparr>"])
      (simp add: jsonResponse_def)
  with trace body names res show ?thesis by simp
qed

text \<open>
  C5 as worded fails when the cap is not positive: with the cap 0 a non-empty store list is
  cut to nothing and the call fails without a request, and with the cap \<open>-1\<close> the list
  loses its last entry only, so six of seven stores are sent.
\<close>

theorem excess_stores_nonpositive_cap_counterexample:
  "effectiveMaxStores (cfgMax (Some 0)) = 0 \<and>
   queryFileSearch mockModelAuth (\<lambda>req. jsonResponse okAnswer ''{}'' 200)
       (storeParams [''a''] (Some (cfgMax (Some 0))))
     = (Inl (Error ''At least one store name is required''), []) \<and>
   effectiveMaxStores (cfgMax (Some (- 1))) = - 1 \<and>
   map (\<lambda>req. map_option fileSearchStoreNames (req_body req))
     (snd (queryFileSearch mockModelAuth (\<lambda>req. jsonResponse okAnswer ''{}'' 200)
        (storeParams [''a'', ''b'', ''c'', ''d'', ''e'', ''f'', ''g''] (Some (cfgMax (Some (- 1)))))))
     = [Some [''fileSearchStores/a'', ''fileSearchStores/b'', ''fileSearchStores/c'',
              ''fileSearchStores/d'', ''fileSearchStores/e'', ''fileSearchStores/f'']]"
proof -
  have zero: "storeNamesOf (storeParams [''a''] (Some (cfgMax (Some 0)))) = []"
    by (simp add: storeNamesOf_def storeParams_def nullish_def cfgMax_def effectiveMaxStores_def
        MAX_STORES_HARD_LIMIT_def slice0_def)
  have neg: "storeNamesOf (storeParams [''a'', ''b'', ''c'', ''d'', ''e'', ''f'', ''g'']
        (Some (cfgMax (Some (- 1))))) =
      [''fileSearchStores/a'', ''fileSearchStores/b'', ''fileSearchStores/c'',
       ''fileSearchStores/d'', ''fileSearchStores/e'', ''fileSearchStores/f'']"
    using normalize_letters
    by (simp add: storeNamesOf_def storeParams_def nullish_def cfgMax_def effectiveMaxStores_def
        MAX_STORES_HARD_LIMIT_def slice0_def)
  have caps: "effectiveMaxStores (cfgMax (Some 0)) = 0 \<and> effectiveMaxStores (cfgMax (Some (- 1))) = - 1"
    by (simp add: effectiveMaxStores_def nullish_def cfgMax_def MAX_STORES_HARD_LIMIT_def)
  have failed: "queryFileSearch mockModelAuth (\<lambda>req. jsonResponse okAnswer ''{}'' 200)
       (storeParams [''a''] (Some (cfgMax (Some 0))))
     = (Inl (Error ''At least one store name is required''), [])"
    by (simp add: queryFileSearch_def zero)
  have sent: "map (\<lambda>req. map_option fileSearchStoreNames (req_body req))
     (snd (queryFileSearch mockModelAuth (\<lambda>req. jsonResponse okAnswer ''{}'' 200)
        (storeParams [''a'', ''b'', ''c'', ''d'', ''e'', ''f'', ''g''] (Some (cfgMax (Some (- 1)))))))
     = [Some [''fileSearchStores/a'', ''fileSearchStores/b'', ''fileSearchStores/c'',
              ''fileSearchStores/d'', ''fileSearchStores/e'', ''fileSearchStores/f'']]"
    by (simp add: query_trace neg queryRequest_def Let_def)
  from caps failed sent show ?thesis by (intro conjI) (simp_all only:)
qed

section \<open>The model name\<close>

lemma url_trace:
  "resolveApiKey found (config params) (agentDir params) = Inr key \<Longrightarrow> storeNamesOf params \<noteq> [] \<Longrightarrow>
   map req_url (snd (queryFileSearch found fetch params)) =
     [resolveBaseUrl (config params) @ ''/models/'' @
      encodeURIComponent (effectiveModel (model params) (nullish (pluginCfg params) emptyPluginCfg)) @
      '':generateContent?key='' @ encodeURIComponent key]"
  by (simp add: query_trace queryRequest_def Let_def)

lemma storeNamesOf_modelParams [simp]:
  "storeNamesOf (modelParams m (Some (cfgModel d))) = [''fileSearchStores/s'']"
  "storeNamesOf (modelParams m None) = [''fileSearchStores/s'']"
  by (simp_all add: storeNamesOf_def modelParams_def cfgModel_def nullish_def emptyPluginCfg_def
      effectiveMaxStores_def MAX_STORES_HARD_LIMIT_def slice0_def normalizeStoreName_def
      trim_def startsWith_def STORE_PREFIX_def isWhiteSpace_def)

lemma modelParams_simps [simp]:
  "config (modelParams m pc) = None" "agentDir (modelParams m pc) = None"
  "pluginCfg (modelParams m pc) = pc" "model (modelParams m pc) = m"
  by (simp_all add: modelParams_def)

lemma resolveBaseUrl_None: "resolveBaseUrl None = ''https://generativelanguage.googleapis.com/v1beta''"
  by (simp add: resolveBaseUrl_def DEFAULT_BASE_URL_def)

lemma encode_plain:
  "encodeURIComponent ''test-api-key'' = ''test-api-key''"
  "encodeURIComponent ''gemini-2.5-pro'' = ''gemini-2.5-pro''"
  "encodeURIComponent ''gemini-2.0-pro'' = ''gemini-2.0-pro''"
  "encodeURIComponent ''gemini-2.5-flash'' = ''gemini-2.5-flash''"
  "encodeURIComponent ''m1'' = ''m1''"
  by (simp_all add: encodeURIComponent_def uriUnreserved_def)

lemma trim_examples:
  "trim ''gemini-2.5-pro'' = ''gemini-2.5-pro''"
  "trim ''gemini-2.0-pro'' = ''gemini-2.0-pro''"
  "trim '' m1 '' = ''m1''"
  "trim ''  '' = []"
  by (simp_all add: trim_def isWhiteSpace_def)

text \<open>
  C7 (as the code has it). When the credential resolves and the store list is not empty,
  the URL of the request of \<open>queryFileSearch\<close> carries the model chosen by a three-level
  precedence in which both configurable levels are trimmed and a blank value counts as
  absent: the per-call override, trimmed, when it is given and not blank; otherwise the
  \<open>defaultModel\<close> of the plugin configuration, trimmed, when it is given and not blank;
  otherwise the fixed default \<open>gemini-2.5-flash\<close>.
\<close>

theorem model_precedence_in_request:
  assumes "pcfg = nullish (pluginCfg params) emptyPluginCfg"
    and "resolveApiKey found (config params) (agentDir params) = Inr key"
    and "storeNamesOf params \<noteq> []"
  shows "\<exists>m. map req_url (snd (queryFileSearch found fetch params)) =
            [resolveBaseUrl (config params) @ ''/models/'' @ encodeURIComponent m @
             '':generateContent?key='' @ encodeURIComponent key] \<and>
          (\<forall>ov. model params = Some ov \<and> trim ov \<noteq> [] \<longrightarrow> m = trim ov) \<and>
          ((model params = None \<or> (\<exists>ov. model params = Some ov \<and> trim ov = [])) \<longrightarrow>
             (\<forall>d. defaultModel pcfg = Some d \<and> trim d \<noteq> [] \<longrightarrow> m = trim d) \<and>
             ((defaultModel pcfg = None \<or> (\<exists>d. defaultModel pcfg = Some d \<and> trim d = []))
                \<longrightarrow> m = DEFAULT_MODEL)) \<and>
          DEFAULT_MODEL = ''gemini-2.5-flash''"
proof (intro exI conjI)
  show "map req_url (snd (queryFileSearch found fetch params)) =
            [resolveBaseUrl (config params) @ ''/models/'' @
             encodeURIComponent (effectiveModel (model params) pcfg) @
             '':generateContent?key='' @ encodeURIComponent key]"
    using url_trace [OF assms(2,3)] by (simp add: assms(1))
  show "\<forall>ov. model params = Some ov \<and> trim ov \<noteq> [] \<longrightarrow> effectiveModel (model params) pcfg = trim ov"
    by (auto simp: effectiveModel_def orElse_def)
  show "(model params = None \<or> (\<exists>ov. model params = Some ov \<and> trim ov = [])) \<longrightarrow>
             (\<forall>d. defaultModel pcfg = Some d \<and> trim d \<noteq> [] \<longrightarrow> effectiveModel (model params) pcfg = trim d) \<and>
             ((defaultModel pcfg = None \<or> (\<exists>d. defaultModel pcfg = Some d \<and> trim d = []))
                \<longrightarrow> effectiveModel (model params) pcfg = DEFAULT_MODEL)"
    by (auto simp: effectiveModel_def orElse_def)
  show "DEFAULT_MODEL = ''gemini-2.5-flash''"
    by (simp add: DEFAULT_MODEL_def)
qed

theorem model_precedence_in_request_witness:
  "map req_url (snd (queryFileSearch mockModelAuth (\<lambda>req. jsonResponse okAnswer ''{}'' 200)
       (modelParams (Some ''gemini-2.5-pro'') (Some (cfgModel (Some ''gemini-2.0-pro''))))))
     = [''https://generativelanguage.googleapis.com/v1beta/models/gemini-2.5-pro:generateContent?key=test-api-key''] \<and>
   map req_url (snd (queryFileSearch mockModelAuth (\<lambda>req. jsonResponse okAnswer ''{}'' 200)
       (modelParams None (Some (cfgModel (Some ''gemini-2.0-pro''))))))
     = [''https://generativelanguage.googleapis.com/v1beta/models/gemini-2.0-pro:generateContent?key=test-api-key''] \<and>
   map req_url (snd (queryFileSearch mockModelAuth (\<lambda>req. jsonResponse okAnswer ''{}'' 200)
       (modelParams None None)))
     = [''https://generativelanguage.googleapis.com/v1beta/models/gemini-2.5-flash:generateContent?key=test-api-key'']"
proof -
  let ?fetch = "\<lambda>req::HttpRequest. jsonResponse okAnswer ''{}'' 200"
  let ?cfg = "cfgModel (Some ''gemini-2.0-pro'')"
  let ?p1 = "modelParams (Some ''gemini-2.5-pro'') (Some ?cfg)"
  let ?p2 = "modelParams None (Some ?cfg)"
  let ?p3 = "modelParams None None"
  have c: "?cfg = nullish (pluginCfg ?p1) emptyPluginCfg" "?cfg = nullish (pluginCfg ?p2) emptyPluginCfg"
    "emptyPluginCfg = nullish (pluginCfg ?p3) emptyPluginCfg"
    by (simp_all add: nullish_def)
  have d: "defaultModel ?cfg = Some ''gemini-2.0-pro''" "defaultModel emptyPluginCfg = None"
    by (simp_all add: cfgModel_def emptyPluginCfg_def)
  have cred1: "resolveApiKey mockModelAuth (config ?p1) (agentDir ?p1) = Inr ''test-api-key''"
    and ne1: "storeNamesOf ?p1 \<noteq> []"
    by simp_all
  note t1 = model_precedence_in_request [OF c(1) cred1 ne1, where fetch = ?fetch]
  obtain m1 where u1: "map req_url (snd (queryFileSearch mockModelAuth ?fetch ?p1)) =
            [resolveBaseUrl (config ?p1) @ ''/models/'' @ encodeURIComponent m1 @
             '':generateContent?key='' @ encodeURIComponent ''test-api-key'']"
    and o1: "\<forall>ov. model ?p1 = Some ov \<and> trim ov \<noteq> [] \<longrightarrow> m1 = trim ov"
    and n1: "(model ?p1 = None \<or> (\<exists>ov. model ?p1 = Some ov \<and> trim ov = [])) \<longrightarrow>
             (\<forall>d. defaultModel ?cfg = Some d \<and> trim d \<noteq> [] \<longrightarrow> m1 = trim d) \<and>
             ((defaultModel ?cfg = None \<or> (\<exists>d. defaultModel ?cfg = Some d \<and> trim d = []))
                \<longrightarrow> m1 = DEFAULT_MODEL)"
    using t1 by (elim exE conjE) (rule that, assumption+)
  have m1: "m1 = ''gemini-2.5-pro''"
    using o1 [rule_format, of "''gemini-2.5-pro''"] by (simp add: trim_examples)
  have cred2: "resolveApiKey mockModelAuth (config ?p2) (agentDir ?p2) = Inr ''test-api-key''"
    and ne2: "storeNamesOf ?p2 \<noteq> []"
    by simp_all
  note t2 = model_precedence_in_request [OF c(2) cred2 ne2, where fetch = ?fetch]
  obtain m2 where u2: "map req_url (snd (queryFileSearch mockModelAuth ?fetch ?p2)) =
            [resolveBaseUrl (config ?p2) @ ''/models/'' @ encodeURIComponent m2 @
             '':generateContent?key='' @ encodeURIComponent ''test-api-key'']"
    and o2: "\<forall>ov. model ?p2 = Some ov \<and> trim ov \<noteq> [] \<longrightarrow> m2 = trim ov"
    and n2: "(model ?p2 = None \<or> (\<exists>ov. model ?p2 = Some ov \<and> trim ov = [])) \<longrightarrow>
             (\<forall>d. defaultModel ?cfg = Some d \<and> trim d \<noteq> [] \<longrightarrow> m2 = trim d) \<and>
             ((defaultModel ?cfg = None \<or> (\<exists>d. defaultModel ?cfg = Some d \<and> trim d = []))
                \<longrightarrow> m2 = DEFAULT_MODEL)"
    using t2 by (elim exE conjE) (rule that, assumption+)
  have m2: "m2 = ''gemini-2.0-pro''"
    using n2 [THEN mp, THEN conjunct1, rule_format, of "''gemini-2.0-pro''"] d(1)
    by (simp add: trim_examples)
  have cred3: "resolveApiKey mockModelAuth (config ?p3) (agentDir ?p3) = Inr ''test-api-key''"
    and ne3: "storeNamesOf ?p3 \<noteq> []"
    by simp_all
  note t3 = model_precedence_in_request [OF c(3) cred3 ne3, where fetch = ?fetch]
  obtain m3 where u3: "map req_url (snd (queryFileSearch mockModelAuth ?fetch ?p3)) =
            [resolveBaseUrl (config ?p3) @ ''/models/'' @ encodeURIComponent m3 @
             '':generateContent?key='' @ encodeURIComponent ''test-api-key'']"
    and o3: "\<forall>ov. model ?p3 = Some ov \<and> trim ov \<noteq> [] \<longrightarrow> m3 = trim ov"
    and n3: "(model ?p3 = None \<or> (\<exists>ov. model ?p3 = Some ov \<and> trim ov = [])) \<longrightarrow>
             (\<forall>d. defaultModel emptyPluginCfg = Some d \<and> trim d \<noteq> [] \<longrightarrow> m3 = trim d) \<and>
             ((defaultModel emptyPluginCfg = None \<or> (\<exists>d. defaultModel emptyPluginCfg = Some d \<and> trim d = []))
                \<longrightarrow> m3 = DEFAULT_MODEL)"
    using t3 by (elim exE conjE) (rule that, assumption+)
  have m3: "m3 = ''gemini-2.5-flash''"
    using n3 [THEN mp, THEN conjunct2, THEN mp] d(2) by (simp add: DEFAULT_MODEL_def)
  have r1: "map req_url (snd (queryFileSearch mockModelAuth ?fetch ?p1))
     = [''https://generativelanguage.googleapis.com/v1beta/models/gemini-2.5-pro:generateContent?key=test-api-key'']"
    by (simp add: u1 m1 resolveBaseUrl_None encode_plain)
  have r2: "map req_url (snd (queryFileSearch mockModelAuth ?fetch ?p2))
     = [''https://generativelanguage.googleapis.com/v1beta/models/gemini-2.0-pro:generateContent?key=test-api-key'']"
    by (simp add: u2 m2 resolveBaseUrl_None encode_plain)
  have r3: "map req_url (snd (queryFileSearch mockModelAuth ?fetch ?p3))
     = [''https://generativelanguage.googleapis.com/v1beta/models/gemini-2.5-flash:generateContent?key=test-api-key'']"
    by (simp add: u3 m3 resolveBaseUrl_None encode_plain)
  from r1 r2 r3 show ?thesis by (intro conjI)
qed

text \<open>
  C7 as worded fails: the \<open>defaultModel\<close> of the plugin configuration is not taken as it
  is given. A blank \<open>defaultModel\<close>, though present, gives way to the fixed default, and a
  \<open>defaultModel\<close> with surrounding white space is used without it.
\<close>

theorem default_model_trimmed_counterexample:
  "effectiveModel None (cfgModel (Some ''  '')) = ''gemini-2.5-flash'' \<and>
   effectiveModel None (cfgModel (Some '' m1 '')) = ''m1'' \<and>
   map req_url (snd (queryFileSearch mockModelAuth (\<lambda>req. jsonResponse okAnswer ''{}'' 200)
       (modelParams None (Some (cfgModel (Some ''  ''))))))
     = [''https://generativelanguage.googleapis.com/v1beta/models/gemini-2.5-flash:generateContent?key=test-api-key''] \<and>
   map req_url (snd (queryFileSearch mockModelAuth (\<lambda>req. jsonResponse okAnswer ''{}'' 200)
       (modelParams None (Some (cfgModel (Some '' m1 ''))))))
     = [''https://generativelanguage.googleapis.com/v1beta/models/m1:generateContent?key=test-api-key'']"
proof -
  have blank: "effectiveModel None (cfgModel (Some ''  '')) = ''gemini-2.5-flash''"
    by (simp add: effectiveModel_def orElse_def cfgModel_def trim_examples DEFAULT_MODEL_def)
  have padded: "effectiveModel None (cfgModel (Some '' m1 '')) = ''m1''"
    by (simp add: effectiveModel_def orElse_def cfgModel_def trim_examples)
  have u1: "map req_url (snd (queryFileSearch mockModelAuth (\<lambda>req. jsonResponse okAnswer ''{}'' 200)
       (modelParams None (Some (cfgModel (Some ''  ''))))))
     = [''https://generativelanguage.googleapis.com/v1beta/models/gemini-2.5-flash:generateContent?key=test-api-key'']"
    by (simp add: url_trace nullish_def blank resolveBaseUrl_None encode_plain)
  have u2: "map req_url (snd (queryFileSearch mockModelAuth (\<lambda>req. jsonResponse okAnswer ''{}'' 200)
       (modelParams None (Some (cfgModel (Some '' m1 ''))))))
     = [''https://generativelanguage.googleapis.com/v1beta/models/m1:generateContent?key=test-api-key'']"
    by (simp add: url_trace nullish_def padded resolveBaseUrl_None encode_plain)
  from blank padded u1 u2 show ?thesis by (intro conjI)
qed

section \<open>The result of a successful query\<close>

lemma storeNamesOf_s [simp]: "storeNamesOf (storeParams [''s''] None) = [''fileSearchStores/s'']"
  by (simp add: storeNamesOf_def storeParams_def nullish_def emptyPluginCfg_def
      effectiveMaxStores_def MAX_STORES_HARD_LIMIT_def slice0_def normalizeStoreName_def
      trim_def startsWith_def STORE_PREFIX_def isWhiteSpace_def)

text \<open>
  C8. When the credential resolves, the store list is not empty and the provider answers
  with a success status and a JSON body, the result of \<open>queryFileSearch\<close> is the answer and
  the sources as the specification words them.
\<close>

theorem queryFileSearch_maps_response:
  assumes "resolveApiKey found (config params) (agentDir params) = Inr key"
    and "storeNamesOf params \<noteq> []"
    and "fetch (queryRequest key params) = Resolved res"
    and "ok res"
    and "bodyJson res = Some data"
  shows "fst (queryFileSearch found fetch params) =
           Inr \<lparr>answer = spec_answer data, sources = spec_sources data\<rparr>"
  using assms by (simp add: queryFileSearch_def extractResult_spec)

theorem queryFileSearch_maps_response_witness:
  "fst (queryFileSearch mockModelAuth (\<lambda>req. jsonResponse answer42 ''{}'' 200)
          (storeParams [''s''] None)) =
     Inr \<lparr>answer = ''The answer is 42.'',
          sources = [\<lparr>title = ''Doc A'', uri = ''https://example.com/doc''\<rparr>,
                     \<lparr>title = ''https://example.com/b'', uri = ''https://example.com/b''\<rparr>,
                     \<lparr>title = ''Doc C'', uri = []\<rparr>]\<rparr> \<and>
   fst (queryFileSearch mockModelAuth (\<lambda>req. jsonResponse \<lparr>candidates = Some []\<rparr> ''{}'' 200)
          (storeParams [''s''] None)) = Inr \<lparr>answer = [], sources = []\<rparr>"
proof -
  have full: "fst (queryFileSearch mockModelAuth (\<lambda>req. jsonResponse answer42 ''{}'' 200)
          (storeParams [''s''] None)) =
     Inr \<lparr>answer = spec_answer answer42, sources = spec_sources answer42\<rparr>"
    by (rule queryFileSearch_maps_response [where key = "''test-api-key''"
          and res = "\<lparr>status = 200, bodyText = ''{}'', bodyJson = Some answer42\<rparr>"])
       (simp_all add: jsonResponse_def)
  have none: "fst (queryFileSearch mockModelAuth (\<lambda>req. jsonResponse \<lparr>candidates = Some []\<rparr> ''{}'' 200)
          (storeParams [''s''] None)) =
     Inr \<lparr>answer = spec_answer \<lparr>candidates = Some []\<rparr>, sources = spec_sources \<lparr>candidates = Some []\<rparr>\<rparr>"
    by (rule queryFileSearch_maps_response [where key = "''test-api-key''"
          and res = "\<lparr>status = 200, bodyText = ''{}'', bodyJson = Some \<lparr>candidates = Some []\<rparr>\<rparr>"])
       (simp_all add: jsonResponse_def)
  have a: "spec_answer answer42 = ''The answer is 42.''"
    by (simp add: spec_answer_def answer42_def spec_parts_def trim_def isWhiteSpace_def)
  have s: "spec_sources answer42 = [\<lparr>title = ''Doc A'', uri = ''https://example.com/doc''\<rparr>,
                     \<lparr>title = ''https://example.com/b'', uri = ''https://example.com/b''\<rparr>,
                     \<lparr>title = ''Doc C'', uri = []\<rparr>]"
    by (simp add: spec_sources_def answer42_def spec_chunks_def
        spec_source_def nonEmpty_def)
  have e: "spec_answer \<lparr>candidates = Some []\<rparr> = [] \<and> spec_sources \<lparr>candidates = Some []\<rparr> = []"
    by (simp add: spec_answer_def spec_sources_def)
  from full none a s e show ?thesis by simp
qed

section \<open>Responses with a non-success status\<close>

lemma includesStr_middle: "includesStr (a @ b @ c) b"
proof -
  have "take (length b) (drop (length a) (a @ b @ c)) = b" by simp
  moreover have "length a \<in> set [0..<Suc (length (a @ b @ c))]" by simp
  ultimately show ?thesis unfolding includesStr_def list_ex_iff by blast
qed

lemma includesStr_end: "includesStr (a @ b) b"
  using includesStr_middle [of a b "[]"] by simp

lemma decimal_429: "decimal 429 = ''429''"
  by code_simp

lemma decimal_403: "decimal 403 = ''403''"
  by code_simp

text \<open>
  C9. When the provider answers with a status outside 200 to 299, \<open>listFileSearchStores\<close>
  and \<open>queryFileSearch\<close> fail with an error whose message is the operation's prefix, the
  decimal status and the text of the body; the message includes the status and the body,
  and nothing else is returned.
\<close>

theorem non_success_status_is_error:
  "(resolveApiKey found (config lp) (agentDir lp) = Inr key \<and>
    fetchL (listRequest key lp) = Resolved resL \<and> \<not> ok resL \<longrightarrow>
      (\<exists>msg. listFileSearchStores found fetchL lp = (Inl (Error msg), [listRequest key lp]) \<and>
         msg = ''Gemini listFileSearchStores failed: '' @ decimal (status resL) @ '' '' @ bodyText resL \<and>
         includesStr msg (decimal (status resL)) \<and> includesStr msg (bodyText resL))) \<and>
   (resolveApiKey found (config qp) (agentDir qp) = Inr key \<and> storeNamesOf qp \<noteq> [] \<and>
    fetchQ (queryRequest key qp) = Resolved resQ \<and> \<not> ok resQ \<longrightarrow>
      (\<exists>msg. queryFileSearch found fetchQ qp = (Inl (Error msg), [queryRequest key qp]) \<and>
         msg = ''Gemini generateContent failed: '' @ decimal (status resQ) @ '' '' @ bodyText resQ \<and>
         includesStr msg (decimal (status resQ)) \<and> includesStr msg (bodyText resQ)))"
proof (intro conjI impI)
  assume a: "resolveApiKey found (config lp) (agentDir lp) = Inr key \<and>
    fetchL (listRequest key lp) = Resolved resL \<and> \<not> ok resL"
  define msg where
    "msg = ''Gemini listFileSearchStores failed: '' @ decimal (status resL) @ '' '' @ bodyText resL"
  have "listFileSearchStores found fetchL lp = (Inl (Error msg), [listRequest key lp])"
    using a by (simp add: listFileSearchStores_def msg_def)
  moreover have "includesStr msg (decimal (status resL))"
    unfolding msg_def by (rule includesStr_middle)
  moreover have "includesStr msg (bodyText resL)"
    using includesStr_end
      [of "''Gemini listFileSearchStores failed: '' @ decimal (status resL) @ '' ''" "bodyText resL"]
    by (simp add: msg_def)
  ultimately show "\<exists>msg. listFileSearchStores found fetchL lp = (Inl (Error msg), [listRequest key lp]) \<and>
         msg = ''Gemini listFileSearchStores failed: '' @ decimal (status resL) @ '' '' @ bodyText resL \<and>
         includesStr msg (decimal (status resL)) \<and> includesStr msg (bodyText resL)"
    using msg_def by blast
next
  assume a: "resolveApiKey found (config qp) (agentDir qp) = Inr key \<and> storeNamesOf qp \<noteq> [] \<and>
    fetchQ (queryRequest key qp) = Resolved resQ \<and> \<not> ok resQ"
  define msg where
    "msg = ''Gemini generateContent failed: '' @ decimal (status resQ) @ '' '' @ bodyText resQ"
  have "queryFileSearch found fetchQ qp = (Inl (Error msg), [queryRequest key qp])"
    using a by (simp add: queryFileSearch_def msg_def)
  moreover have "includesStr msg (decimal (status resQ))"
    unfolding msg_def by (rule includesStr_middle)
  moreover have "includesStr msg (bodyText resQ)"
    using includesStr_end
      [of "''Gemini generateContent failed: '' @ decimal (status resQ) @ '' ''" "bodyText resQ"]
    by (simp add: msg_def)
  ultimately show "\<exists>msg. queryFileSearch found fetchQ qp = (Inl (Error msg), [queryRequest key qp]) \<and>
         msg = ''Gemini generateContent failed: '' @ decimal (status resQ) @ '' '' @ bodyText resQ \<and>
         includesStr msg (decimal (status resQ)) \<and> includesStr msg (bodyText resQ)"
    using msg_def by blast
qed

theorem non_success_status_is_error_witness:
  "fst (listFileSearchStores mockModelAuth
          (\<lambda>req. jsonResponse \<lparr>fileSearchStores = None\<rparr> ''bad'' 403) noParams)
     = Inl (Error ''Gemini listFileSearchStores failed: 403 bad'') \<and>
   includesStr ''Gemini listFileSearchStores failed: 403 bad'' ''403'' \<and>
   fst (queryFileSearch mockModelAuth
          (\<lambda>req. jsonResponse \<lparr>candidates = None\<rparr> ''quota'' 429) (storeParams [''s''] None))
     = Inl (Error ''Gemini generateContent failed: 429 quota'') \<and>
   includesStr ''Gemini generateContent failed: 429 quota'' ''429''"
  using non_success_status_is_error [of mockModelAuth noParams "''test-api-key''"
      "\<lambda>req. jsonResponse \<lparr>fileSearchStores = None\<rparr> ''bad'' 403"
      "\<lparr>status = 403, bodyText = ''bad'', bodyJson = Some \<lparr>fileSearchStores = None\<rparr>\<rparr>"
      "storeParams [''s''] None"
      "\<lambda>req. jsonResponse \<lparr>candidates = None\<rparr> ''quota'' 429"
      "\<lparr>status = 429, bodyText = ''quota'', bodyJson = Some \<lparr>candidates = None\<rparr>\<rparr>"]
  by (simp add: jsonResponse_def decimal_429 decimal_403)

end
